theory Spec2Isabelle
  imports Complex_Main "HOL-Library.AList"
begin

section \<open>Python values, exceptions and sequences\<close>

text \<open>
  The two guessers of \<^verbatim>\<open>qanta/guesser\<close> are glue code around external
  collaborators (Elasticsearch, scikit-learn, Spark, Keras, NumPy and the helper
  modules \<^verbatim>\<open>qanta.preprocess\<close> and \<^verbatim>\<open>qanta.guesser.nn\<close>). The
  guessers themselves are embedded here; every collaborator is a field of a record
  of functions, so that a theorem says what the guesser does for any behaviour of
  the collaborator, or names the part of the collaborator's contract it relies on.

  Python is dynamically typed: a field of \<^verbatim>\<open>RNNGuesser\<close> holds whatever was
  assigned to it (\<^verbatim>\<open>None\<close> after \<^verbatim>\<open>__init__\<close>, anything a pickle
  held after \<^verbatim>\<open>load\<close>). The fields are therefore values of one universe.
  A NumPy matrix of floats is \<open>PArray\<close>; a \<^verbatim>\<open>dict\<close> is an association
  list in insertion order.
\<close>

datatype pyval =
    PNone
  | PBool bool
  | PInt int
  | PFloat real
  | PStr string
  | PList "pyval list"
  | PSet "pyval list"
  | PDict "(pyval \<times> pyval) list"
  | PArray "real list list"

text \<open>
  Exceptions are values. \<open>AttributeError ty a\<close> is Python's
  \<^verbatim>\<open>'ty' object has no attribute 'a'\<close> and \<open>NotSubscriptable ty\<close> its
  \<^verbatim>\<open>'ty' object is not subscriptable\<close>. \<open>ValueError_rnn_cell v\<close> is the
  \<^verbatim>\<open>ValueError\<close> of \<^verbatim>\<open>build_model\<close>, carrying the offending value.
\<close>

datatype py_error =
    KeyError pyval
  | IndexError
  | AttributeError string string
  | NotSubscriptable string
  | ValueError_rnn_cell pyval
  | NotFoundError
  | FileNotFoundError string
  | SameFileError string
  | OSError string
  | UnpicklingError string
  | CollaboratorError string

fun py_type_name :: "pyval \<Rightarrow> string" where
  "py_type_name PNone = ''NoneType''"
| "py_type_name (PBool _) = ''bool''"
| "py_type_name (PInt _) = ''int''"
| "py_type_name (PFloat _) = ''float''"
| "py_type_name (PStr _) = ''str''"
| "py_type_name (PList _) = ''list''"
| "py_type_name (PSet _) = ''set''"
| "py_type_name (PDict _) = ''dict''"
| "py_type_name (PArray _) = ''ndarray''"

text \<open>
  A failure is null-reference-style when it is the interpreter's complaint about an
  operation applied to \<^verbatim>\<open>None\<close>, as opposed to an error the program raises
  on purpose.
\<close>

fun null_reference_style :: "py_error \<Rightarrow> bool" where
  "null_reference_style (AttributeError ty a) = (ty = ''NoneType'')"
| "null_reference_style (NotSubscriptable ty) = (ty = ''NoneType'')"
| "null_reference_style (KeyError k) = False"
| "null_reference_style IndexError = False"
| "null_reference_style (ValueError_rnn_cell v) = False"
| "null_reference_style NotFoundError = False"
| "null_reference_style (FileNotFoundError p) = False"
| "null_reference_style (SameFileError p) = False"
| "null_reference_style (OSError p) = False"
| "null_reference_style (UnpicklingError p) = False"
| "null_reference_style (CollaboratorError m) = False"

text \<open>Sequencing of computations that may raise: the first exception wins.\<close>

definition bind_result :: "py_error + 'a \<Rightarrow> ('a \<Rightarrow> py_error + 'b) \<Rightarrow> py_error + 'b" where
  "bind_result r f = (case r of Inl e \<Rightarrow> Inl e | Inr x \<Rightarrow> f x)"

text \<open>
  A list comprehension, a \<^verbatim>\<open>for\<close> loop that appends one result per element,
  and Spark's \<^verbatim>\<open>parallelize(xs).map(f).collect()\<close> (which returns the results
  in the order of \<^verbatim>\<open>xs\<close>): one result per element, in order, unless some
  call raises.
\<close>

fun mapM :: "('a \<Rightarrow> py_error + 'b) \<Rightarrow> 'a list \<Rightarrow> py_error + 'b list" where
  "mapM f [] = Inr []"
| "mapM f (x # xs) =
     (case f x of
        Inl e \<Rightarrow> Inl e
      | Inr y \<Rightarrow> (case mapM f xs of Inl e \<Rightarrow> Inl e | Inr ys \<Rightarrow> Inr (y # ys)))"

text \<open>
  The slice \<^verbatim>\<open>xs[:k]\<close> of Python and NumPy: everything for \<^verbatim>\<open>None\<close>,
  the first \<open>k\<close> entries for \<open>k \<ge> 0\<close>, and all but the last \<open>-k\<close> entries
  for a negative \<open>k\<close>.
\<close>

definition py_slice_to :: "int option \<Rightarrow> 'a list \<Rightarrow> 'a list" where
  "py_slice_to k xs =
     (case k of
        None \<Rightarrow> xs
      | Some n \<Rightarrow> if 0 \<le> n then take (nat n) xs else take (length xs - nat (- n)) xs)"

text \<open>\<^verbatim>\<open>sep.join(parts)\<close>.\<close>

fun str_join :: "string \<Rightarrow> string list \<Rightarrow> string" where
  "str_join sep [] = []"
| "str_join sep [x] = x"
| "str_join sep (x # y # ys) = x @ sep @ str_join sep (y # ys)"

text \<open>
  \<^verbatim>\<open>d[i]\<close> for an integer \<open>i\<close>. In a sequence a negative index counts
  from the end, and an index outside the sequence raises. A dictionary key matches when Python's
  \<^verbatim>\<open>==\<close> says so (\<^verbatim>\<open>1 == 1.0 == True\<close>); the first matching entry
  is the dictionary's entry.
\<close>

fun int_key :: "int \<Rightarrow> pyval \<Rightarrow> bool" where
  "int_key i (PInt j) = (j = i)"
| "int_key i (PBool b) = (i = (if b then 1 else 0))"
| "int_key i (PFloat r) = (r = of_int i)"
| "int_key i PNone = False"
| "int_key i (PStr s) = False"
| "int_key i (PList xs) = False"
| "int_key i (PSet xs) = False"
| "int_key i (PDict d) = False"
| "int_key i (PArray m) = False"

fun dict_get_int :: "(pyval \<times> pyval) list \<Rightarrow> int \<Rightarrow> pyval option" where
  "dict_get_int [] i = None"
| "dict_get_int ((k, v) # d) i = (if int_key i k then Some v else dict_get_int d i)"

definition seq_index :: "'a list \<Rightarrow> int \<Rightarrow> py_error + 'a" where
  "seq_index xs i =
     (if 0 \<le> i \<and> i < int (length xs) then Inr (xs ! nat i)
      else if i < 0 \<and> - int (length xs) \<le> i then Inr (xs ! nat (int (length xs) + i))
      else Inl IndexError)"

fun py_getitem :: "pyval \<Rightarrow> int \<Rightarrow> py_error + pyval" where
  "py_getitem (PDict d) i =
     (case dict_get_int d i of None \<Rightarrow> Inl (KeyError (PInt i)) | Some v \<Rightarrow> Inr v)"
| "py_getitem (PList xs) i = seq_index xs i"
| "py_getitem (PStr s) i = bind_result (seq_index s i) (\<lambda>c. Inr (PStr [c]))"
| "py_getitem (PArray m) i = bind_result (seq_index m i) (\<lambda>r. Inr (PList (map PFloat r)))"
| "py_getitem PNone i = Inl (NotSubscriptable ''NoneType'')"
| "py_getitem (PBool b) i = Inl (NotSubscriptable ''bool'')"
| "py_getitem (PInt j) i = Inl (NotSubscriptable ''int'')"
| "py_getitem (PFloat r) i = Inl (NotSubscriptable ''float'')"
| "py_getitem (PSet xs) i = Inl (NotSubscriptable ''set'')"

section \<open>Files\<close>

text \<open>
  The disk maps a path to what was written there. \<^verbatim>\<open>pickle.dump\<close> followed
  by \<^verbatim>\<open>pickle.load\<close> gives the value back, and so does Keras'
  \<^verbatim>\<open>model.save\<close> followed by \<^verbatim>\<open>load_model\<close>; a file is therefore
  the value it holds. Paths are taken as normalised: two different strings name two
  different files.
\<close>

datatype ('clf, 'net) blob =
    HumanModelPickle "(string \<times> 'clf option) list"
  | ParamsPickle "(string \<times> pyval) list"
  | KerasFile 'net

type_synonym ('clf, 'net) disk = "string \<rightharpoonup> ('clf, 'net) blob"

text \<open>\<^verbatim>\<open>os.path.join(a, b)\<close> on POSIX, for two components.\<close>

definition path_join :: "string \<Rightarrow> string \<Rightarrow> string" where
  "path_join a b =
     (if b \<noteq> [] \<and> hd b = CHR ''/'' then b
      else if a = [] \<or> last a = CHR ''/'' then a @ b
      else a @ ''/'' @ b)"

text \<open>
  \<^verbatim>\<open>shutil.copyfile(src, dst)\<close>: a missing source and a destination that is
  the source itself are errors.
\<close>

definition copyfile :: "string \<Rightarrow> string \<Rightarrow> ('clf, 'net) disk \<Rightarrow> py_error + ('clf, 'net) disk" where
  "copyfile src dst fs =
     (case fs src of
        None \<Rightarrow> Inl (FileNotFoundError src)
      | Some b \<Rightarrow> if src = dst then Inl (SameFileError src) else Inr (fs(dst \<mapsto> b)))"

section \<open>The Elasticsearch and Wikidata guesser (elasticsearch\_wikidata.py)\<close>

definition IS_HUMAN_MODEL_PICKLE :: string where
  "IS_HUMAN_MODEL_PICKLE = ''is_human_model.pickle''"

text \<open>The document type \<^verbatim>\<open>Answer\<close> of the index \<^verbatim>\<open>qb\<close>.\<close>

record Answer =
  page :: string
  wiki_content :: string
  qb_content :: string
  is_human :: bool

text \<open>The index \<^verbatim>\<open>qb\<close> of the search service: absent, or its documents in insertion order.\<close>

type_synonym es_index = "Answer list option"

text \<open>
  The collaborators of this module: \<^verbatim>\<open>format_guess\<close> of
  \<^verbatim>\<open>qanta.preprocess\<close>, the content of a page in \<^verbatim>\<open>CachedWikipedia\<close>,
  the \<^verbatim>\<open>parsed_item_map\<close> stored in \<^verbatim>\<open>output/wikidata.pickle\<close>,
  fitting the scikit-learn pipeline, the fitted pipeline's verdict
  \<^verbatim>\<open>bool(model.transform([query])[0])\<close>, and the relevance ranking of a
  \<^verbatim>\<open>multi_match\<close> query over a set of documents.
\<close>

record 'clf es_collab =
  format_guess :: "string \<Rightarrow> string"
  wikipedia :: "string \<Rightarrow> py_error + string"
  parsed_item_map :: "(string \<times> (string \<times> string list) list) list"
  pipeline_fit :: "string list \<Rightarrow> int list \<Rightarrow> py_error + 'clf"
  transform_first :: "'clf \<Rightarrow> string \<Rightarrow> py_error + bool"
  multi_match :: "string \<Rightarrow> Answer list \<Rightarrow> (Answer \<times> real) list"

subsection \<open>ElasticSearchIndex\<close>

text \<open>\<^verbatim>\<open>Index('qb').delete()\<close> raises \<^verbatim>\<open>NotFoundError\<close> when there is no index.\<close>

definition index_delete :: "es_index \<Rightarrow> py_error + es_index" where
  "index_delete idx = (case idx of None \<Rightarrow> Inl NotFoundError | Some docs \<Rightarrow> Inr None)"

text \<open>\<^verbatim>\<open>Answer.init()\<close> creates the index with its mapping when it is absent.\<close>

definition answer_init :: "es_index \<Rightarrow> es_index" where
  "answer_init idx = (case idx of None \<Rightarrow> Some [] | Some docs \<Rightarrow> Some docs)"

text \<open>\<^verbatim>\<open>answer.save()\<close> with no id: the service adds a new document.\<close>

definition answer_save :: "Answer \<Rightarrow> es_index \<Rightarrow> es_index" where
  "answer_save a idx = (case idx of None \<Rightarrow> Some [a] | Some docs \<Rightarrow> Some (docs @ [a]))"

text \<open>
  The loop of \<^verbatim>\<open>build\<close> over the pages. The keyword arguments of
  \<^verbatim>\<open>Answer(...)\<close> are evaluated in the order written; an exception leaves the
  index as filled so far. The result is the exception raised, if any, and the index.
\<close>

fun build_loop ::
  "(string \<Rightarrow> py_error + string) \<Rightarrow> (string \<times> string) list \<Rightarrow> (string \<times> bool) list \<Rightarrow>
   string list \<Rightarrow> es_index \<Rightarrow> py_error option \<times> es_index" where
  "build_loop cw documents is_human_map [] idx = (None, idx)"
| "build_loop cw documents is_human_map (p # ps) idx =
     (case cw p of
        Inl e \<Rightarrow> (Some e, idx)
      | Inr content \<Rightarrow>
          (case map_of documents p of
             None \<Rightarrow> (Some (KeyError (PStr p)), idx)
           | Some text \<Rightarrow>
               (case map_of is_human_map p of
                  None \<Rightarrow> (Some (KeyError (PStr p)), idx)
                | Some h \<Rightarrow>
                    build_loop cw documents is_human_map ps
                      (answer_save
                         \<lparr>page = p, wiki_content = content, qb_content = text, is_human = h\<rparr>
                         idx))))"

definition build ::
  "(string \<Rightarrow> py_error + string) \<Rightarrow> (string \<times> string) list \<Rightarrow> (string \<times> bool) list \<Rightarrow>
   es_index \<Rightarrow> py_error option \<times> es_index" where
  "build cw documents is_human_map idx =
     (case index_delete idx of
        Inl e \<Rightarrow>
          if e = NotFoundError
          then build_loop cw documents is_human_map (map fst documents) (answer_init idx)
          else (Some e, idx)
      | Inr idx' \<Rightarrow>
          build_loop cw documents is_human_map (map fst documents) (answer_init idx'))"

text \<open>
  \<^verbatim>\<open>search\<close>: the documents whose \<^verbatim>\<open>is_human\<close> term equals the flag,
  ranked by the service; each hit gives its page and its score.
\<close>

definition search ::
  "(string \<Rightarrow> Answer list \<Rightarrow> (Answer \<times> real) list) \<Rightarrow> es_index \<Rightarrow> string \<Rightarrow> bool \<Rightarrow>
   py_error + (string \<times> real) list" where
  "search rank idx query h =
     (case idx of
        None \<Rightarrow> Inl NotFoundError
      | Some docs \<Rightarrow>
          Inr (map (\<lambda>(r, score). (page r, score))
                 (rank query (filter (\<lambda>d. is_human d = h) docs))))"

subsection \<open>The human map\<close>

definition instance_of_step ::
  "(string \<Rightarrow> string) \<Rightarrow> string set \<Rightarrow> string \<times> (string \<times> string list) list \<Rightarrow>
   (string \<times> string set) list \<Rightarrow> (string \<times> string set) list" where
  "instance_of_step fg formatted_answers = (\<lambda>(pg, properties) instance_of_map.
     (let guess = fg pg in
      case map_of properties ''instance of'' of
        None \<Rightarrow> instance_of_map
      | Some vs \<Rightarrow>
          if guess \<in> formatted_answers \<and> length vs > 0
          then AList.update guess (set vs) instance_of_map
          else instance_of_map))"

definition create_instance_of_map ::
  "(string \<Rightarrow> string) \<Rightarrow> (string \<times> (string \<times> string list) list) list \<Rightarrow> string set \<Rightarrow>
   (string \<times> string set) list" where
  "create_instance_of_map fg items formatted_answers =
     fold (instance_of_step fg formatted_answers) items []"

definition create_is_human_map :: "(string \<times> string set) list \<Rightarrow> (string \<times> bool) list" where
  "create_is_human_map instance_of_map =
     fold (\<lambda>p is_human_map.
             case map_of instance_of_map p of
               None \<Rightarrow> is_human_map
             | Some types \<Rightarrow>
                 if ''Human'' \<in> types
                 then AList.update p True is_human_map
                 else AList.update p False is_human_map)
          (map fst instance_of_map) []"

text \<open>
  \<^verbatim>\<open>format_human_data\<close>: \<^verbatim>\<open>is_human_map[p]\<close> is a plain dictionary
  lookup, which raises \<^verbatim>\<open>KeyError\<close> for a page that has no entry.
\<close>

definition human_datum ::
  "(string \<Rightarrow> string) \<Rightarrow> (string \<times> bool) list \<Rightarrow> string list \<times> string \<Rightarrow> py_error + string \<times> int" where
  "human_datum fg is_human_map = (\<lambda>(q, p).
     (let full_text = str_join '' '' q in
      case map_of is_human_map (fg p) of
        None \<Rightarrow> Inl (KeyError (PStr (fg p)))
      | Some h \<Rightarrow> Inr (full_text, if h then 1 else 0)))"

definition format_human_data ::
  "(string \<Rightarrow> string) \<Rightarrow> (string \<times> bool) list \<Rightarrow> string list list \<Rightarrow> string list \<Rightarrow>
   py_error + string list \<times> int list" where
  "format_human_data fg is_human_map questions pages =
     bind_result (mapM (human_datum fg is_human_map) (zip questions pages))
       (\<lambda>data. Inr (map fst data, map snd data))"

subsection \<open>ElasticSearchWikidataGuesser\<close>

record 'clf ElasticSearchWikidataGuesser =
  is_human_model :: "'clf option"

definition documents_step ::
  "(string \<Rightarrow> string) \<Rightarrow> string list \<times> string \<Rightarrow> (string \<times> string) list \<Rightarrow> (string \<times> string) list" where
  "documents_step fg = (\<lambda>(sentences, ans) documents.
     (let p = fg ans; paragraph = str_join '' '' sentences in
      case map_of documents p of
        Some old \<Rightarrow> AList.update p (old @ '' '' @ paragraph) documents
      | None \<Rightarrow> AList.update p paragraph documents))"

text \<open>
  \<^verbatim>\<open>train\<close>. The result is the exception raised (if any), the guesser and the
  index as they are when \<^verbatim>\<open>train\<close> ends.
\<close>

definition es_train ::
  "'clf es_collab \<Rightarrow> string list list \<times> string list \<Rightarrow> 'clf ElasticSearchWikidataGuesser \<Rightarrow>
   es_index \<Rightarrow> py_error option \<times> 'clf ElasticSearchWikidataGuesser \<times> es_index" where
  "es_train ext training_data g idx =
     (let answers = format_guess ext ` set (snd training_data);
          instance_of_map = create_instance_of_map (format_guess ext) (parsed_item_map ext) answers;
          is_human_map = create_is_human_map instance_of_map
      in case format_human_data (format_guess ext) is_human_map
                (fst training_data) (snd training_data) of
           Inl e \<Rightarrow> (Some e, g, idx)
         | Inr (x_data, y_data) \<Rightarrow>
             (case pipeline_fit ext x_data y_data of
                Inl e \<Rightarrow> (Some e, g, idx)
              | Inr clf \<Rightarrow>
                  (let g' = g\<lparr>is_human_model := Some clf\<rparr>;
                       documents = fold (documents_step (format_guess ext))
                                     (zip (fst training_data) (snd training_data)) [];
                       (r, idx') = build (wikipedia ext) documents is_human_map idx
                   in (r, g', idx'))))"

text \<open>
  \<^verbatim>\<open>guess\<close>: \<^verbatim>\<open>ir_search\<close> is mapped over the questions. The model is
  first touched inside \<^verbatim>\<open>ir_search\<close>, by \<^verbatim>\<open>is_human_model.transform\<close>.
\<close>

definition ir_search ::
  "'clf es_collab \<Rightarrow> es_index \<Rightarrow> 'clf option \<Rightarrow> int option \<Rightarrow> string \<Rightarrow>
   py_error + (string \<times> real) list" where
  "ir_search ext idx m max_n_guesses query =
     (case m of
        None \<Rightarrow> Inl (AttributeError ''NoneType'' ''transform'')
      | Some clf \<Rightarrow>
          bind_result (transform_first ext clf query) (\<lambda>h.
          bind_result (search (multi_match ext) idx query h) (\<lambda>hits.
          Inr (py_slice_to max_n_guesses hits))))"

definition es_guess ::
  "'clf es_collab \<Rightarrow> es_index \<Rightarrow> 'clf ElasticSearchWikidataGuesser \<Rightarrow> string list \<Rightarrow> int option \<Rightarrow>
   py_error + (string \<times> real) list list" where
  "es_guess ext idx g questions max_n_guesses =
     mapM (ir_search ext idx (is_human_model g) max_n_guesses) questions"

definition es_save ::
  "'clf ElasticSearchWikidataGuesser \<Rightarrow> string \<Rightarrow> ('clf, 'net) disk \<Rightarrow> ('clf, 'net) disk" where
  "es_save g directory fs =
     fs(path_join directory IS_HUMAN_MODEL_PICKLE \<mapsto>
          HumanModelPickle [(''is_human_model'', is_human_model g)])"

definition es_load ::
  "string \<Rightarrow> ('clf, 'net) disk \<Rightarrow> py_error + 'clf ElasticSearchWikidataGuesser" where
  "es_load directory fs =
     (let path = path_join directory IS_HUMAN_MODEL_PICKLE in
      case fs path of
        None \<Rightarrow> Inl (FileNotFoundError path)
      | Some (HumanModelPickle d) \<Rightarrow>
          (case map_of d ''is_human_model'' of
             None \<Rightarrow> Inl (KeyError (PStr ''is_human_model''))
           | Some m \<Rightarrow> Inr \<lparr>is_human_model = m\<rparr>)
      | Some (ParamsPickle d) \<Rightarrow> Inl (KeyError (PStr ''is_human_model''))
      | Some (KerasFile n) \<Rightarrow> Inl (UnpicklingError path))"

section \<open>The recurrent network guesser (rnn.py)\<close>

definition RNN_MODEL_TMP_TARGET :: string where
  "RNN_MODEL_TMP_TARGET = ''/tmp/qanta/deep/final_rnn.keras''"

definition RNN_MODEL_TARGET :: string where
  "RNN_MODEL_TARGET = ''final_rnn.keras''"

definition RNN_PARAMS_TARGET :: string where
  "RNN_PARAMS_TARGET = ''rnn_params.pickle''"

text \<open>The entries of \<^verbatim>\<open>conf['guessers']['RNN']\<close> that \<^verbatim>\<open>__init__\<close> reads.\<close>

record guesser_conf =
  conf_rnn_cell :: pyval
  conf_min_answers :: pyval
  conf_expand_we :: pyval

record 'net RNNGuesser =
  rnn_cell :: pyval
  min_answers :: pyval
  expand_we :: pyval
  embeddings :: pyval
  embedding_lookup :: pyval
  max_len :: pyval
  i_to_class :: pyval
  class_to_i :: pyval
  vocab :: pyval
  n_classes :: pyval
  model :: "'net option"
  max_n_epochs :: pyval
  batch_size :: pyval
  max_patience :: pyval

definition rnn_init :: "guesser_conf \<Rightarrow> 'net RNNGuesser" where
  "rnn_init guesser_conf =
     \<lparr>rnn_cell = conf_rnn_cell guesser_conf,
      min_answers = conf_min_answers guesser_conf,
      expand_we = conf_expand_we guesser_conf,
      embeddings = PNone,
      embedding_lookup = PNone,
      max_len = PNone,
      i_to_class = PNone,
      class_to_i = PNone,
      vocab = PNone,
      n_classes = PNone,
      model = None,
      max_n_epochs = PInt 100,
      batch_size = PInt 128,
      max_patience = PInt 5\<rparr>"

definition dump_parameters :: "'net RNNGuesser \<Rightarrow> (string \<times> pyval) list" where
  "dump_parameters g =
     [(''rnn_cell'', rnn_cell g),
      (''min_answers'', min_answers g),
      (''embeddings'', embeddings g),
      (''embedding_lookup'', embedding_lookup g),
      (''max_len'', max_len g),
      (''i_to_class'', i_to_class g),
      (''class_to_i'', class_to_i g),
      (''vocab'', vocab g),
      (''n_classes'', n_classes g),
      (''max_n_epochs'', max_n_epochs g),
      (''batch_size'', batch_size g),
      (''max_patience'', max_patience g)]"

text \<open>\<^verbatim>\<open>params[key]\<close>.\<close>

definition param :: "(string \<times> pyval) list \<Rightarrow> string \<Rightarrow> py_error + pyval" where
  "param params k = (case map_of params k of None \<Rightarrow> Inl (KeyError (PStr k)) | Some v \<Rightarrow> Inr v)"

definition load_parameters :: "'net RNNGuesser \<Rightarrow> (string \<times> pyval) list \<Rightarrow> py_error + 'net RNNGuesser" where
  "load_parameters g params =
     bind_result (param params ''rnn_cell'') (\<lambda>v1.
     bind_result (param params ''min_answers'') (\<lambda>v2.
     bind_result (param params ''embeddings'') (\<lambda>v3.
     bind_result (param params ''embedding_lookup'') (\<lambda>v4.
     bind_result (param params ''max_len'') (\<lambda>v5.
     bind_result (param params ''i_to_class'') (\<lambda>v6.
     bind_result (param params ''class_to_i'') (\<lambda>v7.
     bind_result (param params ''vocab'') (\<lambda>v8.
     bind_result (param params ''n_classes'') (\<lambda>v9.
     bind_result (param params ''max_n_epochs'') (\<lambda>v10.
     bind_result (param params ''batch_size'') (\<lambda>v11.
     bind_result (param params ''max_patience'') (\<lambda>v12.
     Inr (g\<lparr>rnn_cell := v1, min_answers := v2, embeddings := v3, embedding_lookup := v4,
             max_len := v5, i_to_class := v6, class_to_i := v7, vocab := v8, n_classes := v9,
             max_n_epochs := v10, batch_size := v11, max_patience := v12\<rparr>)))))))))))))"

subsection \<open>The network\<close>

datatype cell = LSTM | GRU | SimpleRNN

text \<open>The layers \<^verbatim>\<open>build_model\<close> adds, with the arguments it passes.\<close>

datatype layer =
    Embedding int nat bool pyval pyval
  | Recurrent cell nat
  | Dropout real
  | Dense pyval
  | BatchNormalization
  | Activation string

text \<open>The result of \<^verbatim>\<open>preprocess_dataset\<close>, a tuple of nine.\<close>

datatype preprocessed =
  Preprocessed "string list list" pyval pyval "string list list" pyval pyval pyval pyval pyval

text \<open>
  The collaborators of this module: \<^verbatim>\<open>tokenize_question\<close> and
  \<^verbatim>\<open>preprocess_dataset\<close> of \<^verbatim>\<open>qanta.preprocess\<close>; the helpers of
  \<^verbatim>\<open>qanta.guesser.nn\<close>; NumPy's \<^verbatim>\<open>argsort\<close>; and Keras: compiling
  a \<^verbatim>\<open>Sequential\<close> model from its layers, \<^verbatim>\<open>fit\<close> (with the training
  and validation data, the batch size, the number of epochs and the patience of
  early stopping) and \<^verbatim>\<open>predict_proba\<close>. A helper receives the guesser's
  fields as they are, \<^verbatim>\<open>None\<close> included.
\<close>

record 'net rnn_collab =
  tokenize_question :: "string \<Rightarrow> string list"
  preprocess_dataset :: "string list list \<times> string list \<Rightarrow> py_error + preprocessed"
  load_embeddings :: "pyval \<Rightarrow> pyval \<Rightarrow> bool \<Rightarrow> py_error + pyval \<times> pyval"
  convert_text_to_embeddings_indices :: "string list \<Rightarrow> pyval \<Rightarrow> py_error + pyval"
  compute_n_classes :: "string list \<Rightarrow> py_error + pyval"
  compute_max_len :: "string list list \<times> string list \<Rightarrow> py_error + pyval"
  tf_format :: "pyval list \<Rightarrow> pyval \<Rightarrow> pyval \<Rightarrow> py_error + pyval list"
  keras_compile :: "layer list \<Rightarrow> py_error + 'net"
  keras_fit ::
    "'net \<Rightarrow> pyval list \<times> pyval \<Rightarrow> pyval list \<times> pyval \<Rightarrow> pyval \<Rightarrow> pyval \<Rightarrow> pyval \<Rightarrow> py_error + 'net"
  predict_proba :: "'net \<Rightarrow> pyval list \<Rightarrow> pyval \<Rightarrow> py_error + real list list"
  argsort :: "real list \<Rightarrow> nat list"

text \<open>\<^verbatim>\<open>self.embeddings.shape[0]\<close>: only an array has a shape.\<close>

definition shape0 :: "pyval \<Rightarrow> py_error + int" where
  "shape0 v =
     (case v of
        PArray m \<Rightarrow> Inr (int (length m))
      | _ \<Rightarrow> Inl (AttributeError (py_type_name v) ''shape''))"

text \<open>The layers of \<^verbatim>\<open>build_model\<close>, in the order they are added.\<close>

definition model_layers :: "cell \<Rightarrow> int \<Rightarrow> 'net RNNGuesser \<Rightarrow> layer list" where
  "model_layers c rows g =
     [Embedding rows 300 True (max_len g) (embeddings g),
      Recurrent c 300,
      Dropout (1 / 2),
      Dense (n_classes g),
      BatchNormalization,
      Dropout (1 / 2),
      Activation ''softmax'']"

definition build_model :: "'net rnn_collab \<Rightarrow> 'net RNNGuesser \<Rightarrow> py_error + 'net" where
  "build_model ext g =
     bind_result
       (if rnn_cell g = PStr ''lstm'' then Inr LSTM
        else if rnn_cell g = PStr ''gru'' then Inr GRU
        else if rnn_cell g = PStr ''simple_rnn'' then Inr SimpleRNN
        else Inl (ValueError_rnn_cell (rnn_cell g)))
       (\<lambda>c.
     bind_result (shape0 (embeddings g)) (\<lambda>rows.
     keras_compile ext (model_layers c rows g)))"

subsection \<open>Training\<close>

text \<open>
  What \<^verbatim>\<open>train\<close> does before it fits the model: preprocessing, the embedding
  table, the encoding of both splits, and \<^verbatim>\<open>build_model\<close>. The result is the
  guesser with the fields set so far, the model built, and the two encoded splits
  with their labels.
\<close>

definition rnn_train_prepare ::
  "'net rnn_collab \<Rightarrow> string list list \<times> string list \<Rightarrow> 'net RNNGuesser \<Rightarrow>
   py_error + 'net RNNGuesser \<times> 'net \<times> (pyval list \<times> pyval) \<times> (pyval list \<times> pyval)" where
  "rnn_train_prepare ext training_data g =
     bind_result (preprocess_dataset ext training_data) (\<lambda>pp.
     case pp of Preprocessed x_train y_train u1 x_test y_test u2 voc c_to_i i_to_c \<Rightarrow>
     (let g1 = g\<lparr>class_to_i := c_to_i, i_to_class := i_to_c, vocab := voc\<rparr> in
     bind_result (load_embeddings ext voc (expand_we g1) True) (\<lambda>(emb, lookup).
     (let g2 = g1\<lparr>embeddings := emb, embedding_lookup := lookup\<rparr> in
     bind_result (mapM (\<lambda>q. convert_text_to_embeddings_indices ext q lookup) x_train) (\<lambda>x_train1.
     bind_result (mapM (\<lambda>q. convert_text_to_embeddings_indices ext q lookup) x_test) (\<lambda>x_test1.
     bind_result (compute_n_classes ext (snd training_data)) (\<lambda>n.
     bind_result (compute_max_len ext training_data) (\<lambda>ml.
     (let g3 = g2\<lparr>n_classes := n, max_len := ml\<rparr> in
     bind_result (tf_format ext x_train1 (max_len g3) (PInt 0)) (\<lambda>x_train2.
     bind_result (tf_format ext x_test1 (max_len g3) (PInt 0)) (\<lambda>x_test2.
     bind_result (build_model ext g3) (\<lambda>m.
     Inr (g3\<lparr>model := Some m\<rparr>, m, (x_train2, y_train), (x_test2, y_test))))))))))))))"

text \<open>
  What the module does to the outside: the files it writes and the number of calls
  of Keras' \<^verbatim>\<open>fit\<close>, the only place where training epochs run.
\<close>

record ('clf, 'net) world =
  files :: "('clf, 'net) disk"
  fit_calls :: nat

text \<open>
  \<^verbatim>\<open>train\<close>: the result is the trained guesser or the exception, and the world
  as it is when \<^verbatim>\<open>train\<close> ends.
\<close>

definition rnn_train ::
  "'net rnn_collab \<Rightarrow> string list list \<times> string list \<Rightarrow> 'net RNNGuesser \<Rightarrow> ('clf, 'net) world \<Rightarrow>
   (py_error + 'net RNNGuesser) \<times> ('clf, 'net) world" where
  "rnn_train ext training_data g w =
     (case rnn_train_prepare ext training_data g of
        Inl e \<Rightarrow> (Inl e, w)
      | Inr (g', m, train_split, test_split) \<Rightarrow>
          (case keras_fit ext m train_split test_split
                  (batch_size g') (max_n_epochs g') (max_patience g') of
             Inl e \<Rightarrow> (Inl e, w\<lparr>fit_calls := Suc (fit_calls w)\<rparr>)
           | Inr m' \<Rightarrow>
               (Inr (g'\<lparr>model := Some m'\<rparr>),
                w\<lparr>fit_calls := Suc (fit_calls w),
                  files := (files w)(RNN_MODEL_TMP_TARGET \<mapsto> KerasFile m')\<rparr>)))"

subsection \<open>Guessing\<close>

text \<open>The encoded questions \<^verbatim>\<open>x_test\<close> of \<^verbatim>\<open>guess\<close>.\<close>

definition guess_x_test :: "'net rnn_collab \<Rightarrow> 'net RNNGuesser \<Rightarrow> string list \<Rightarrow> py_error + pyval list" where
  "guess_x_test ext g questions =
     bind_result
       (mapM (\<lambda>q. convert_text_to_embeddings_indices ext (tokenize_question ext q)
                     (embedding_lookup g)) questions)
       (\<lambda>x_test. tf_format ext x_test (max_len g) (PInt 0))"

text \<open>\<^verbatim>\<open>class_probabilities\<close>: the model is first touched by \<^verbatim>\<open>self.model.predict_proba\<close>.\<close>

definition class_probabilities ::
  "'net rnn_collab \<Rightarrow> 'net RNNGuesser \<Rightarrow> string list \<Rightarrow> py_error + real list list" where
  "class_probabilities ext g questions =
     bind_result (guess_x_test ext g questions) (\<lambda>x_test.
     case model g of
       None \<Rightarrow> Inl (AttributeError ''NoneType'' ''predict_proba'')
     | Some net \<Rightarrow> predict_proba ext net x_test (batch_size g))"

text \<open>\<^verbatim>\<open>np.argsort(-row)[:max_n_guesses]\<close>.\<close>

definition sorted_labels :: "'net rnn_collab \<Rightarrow> int option \<Rightarrow> real list \<Rightarrow> nat list" where
  "sorted_labels ext max_n_guesses row = py_slice_to max_n_guesses (argsort ext (map uminus row))"

text \<open>
  The body of the loop over the rows: the labels, their pages, their scores
  (\<^verbatim>\<open>row[sorted_labels]\<close> raises \<^verbatim>\<open>IndexError\<close> for a label outside the
  row), and the pairs.
\<close>

definition decode_row ::
  "'net rnn_collab \<Rightarrow> 'net RNNGuesser \<Rightarrow> int option \<Rightarrow> real list \<Rightarrow> py_error + (pyval \<times> real) list" where
  "decode_row ext g max_n_guesses row =
     (let labels = sorted_labels ext max_n_guesses row in
      bind_result (mapM (\<lambda>i. py_getitem (i_to_class g) (int i)) labels) (\<lambda>sorted_guesses.
      bind_result (mapM (\<lambda>i. seq_index row (int i)) labels) (\<lambda>sorted_scores.
      Inr (zip sorted_guesses sorted_scores))))"

definition rnn_guess ::
  "'net rnn_collab \<Rightarrow> 'net RNNGuesser \<Rightarrow> string list \<Rightarrow> int option \<Rightarrow>
   py_error + (pyval \<times> real) list list" where
  "rnn_guess ext g questions max_n_guesses =
     bind_result (class_probabilities ext g questions) (\<lambda>probs.
     mapM (decode_row ext g max_n_guesses) probs)"

subsection \<open>Saving and loading\<close>

definition rnn_save ::
  "'net RNNGuesser \<Rightarrow> string \<Rightarrow> ('clf, 'net) disk \<Rightarrow> py_error + ('clf, 'net) disk" where
  "rnn_save g directory fs =
     bind_result (copyfile RNN_MODEL_TMP_TARGET (path_join directory RNN_MODEL_TARGET) fs) (\<lambda>fs'.
     Inr (fs'(path_join directory RNN_PARAMS_TARGET \<mapsto> ParamsPickle (dump_parameters g))))"

text \<open>\<^verbatim>\<open>load_model(path)\<close>.\<close>

definition load_model :: "string \<Rightarrow> ('clf, 'net) disk \<Rightarrow> py_error + 'net" where
  "load_model path fs =
     (case fs path of
        Some (KerasFile net) \<Rightarrow> Inr net
      | _ \<Rightarrow> Inl (OSError path))"

text \<open>\<^verbatim>\<open>pickle.load\<close> of the parameter file.\<close>

definition load_params_pickle :: "string \<Rightarrow> ('clf, 'net) disk \<Rightarrow> py_error + (string \<times> pyval) list" where
  "load_params_pickle path fs =
     (case fs path of
        None \<Rightarrow> Inl (FileNotFoundError path)
      | Some (ParamsPickle params) \<Rightarrow> Inr params
      | Some (HumanModelPickle d) \<Rightarrow> Inl (KeyError (PStr ''rnn_cell''))
      | Some (KerasFile n) \<Rightarrow> Inl (UnpicklingError path))"

definition rnn_load ::
  "guesser_conf \<Rightarrow> string \<Rightarrow> ('clf, 'net) disk \<Rightarrow> py_error + 'net RNNGuesser" where
  "rnn_load guesser_conf directory fs =
     (let guesser = rnn_init guesser_conf in
      bind_result (load_model (path_join directory RNN_MODEL_TARGET) fs) (\<lambda>net.
      (let guesser1 = guesser\<lparr>model := Some net\<rparr> in
      bind_result (load_params_pickle (path_join directory RNN_PARAMS_TARGET) fs) (\<lambda>params.
      load_parameters guesser1 params))))"

section \<open>Contracts of the collaborators\<close>



text \<open>
  The steps of \<^verbatim>\<open>train\<close> before \<^verbatim>\<open>build_model\<close> return normally,
  whatever they are given.
\<close>

definition preparation_returns :: "'net rnn_collab \<Rightarrow> bool" where
  "preparation_returns ext =
     ((\<forall>td. \<exists>r. preprocess_dataset ext td = Inr r) \<and>
      (\<forall>v e m. \<exists>r. load_embeddings ext v e m = Inr r) \<and>
      (\<forall>q l. \<exists>r. convert_text_to_embeddings_indices ext q l = Inr r) \<and>
      (\<forall>a. \<exists>r. compute_n_classes ext a = Inr r) \<and>
      (\<forall>td. \<exists>r. compute_max_len ext td = Inr r) \<and>
      (\<forall>x l z. \<exists>r. tf_format ext x l z = Inr r))"

section \<open>A small instance\<close>

text \<open>
  Two sorts that meet the contract of \<^verbatim>\<open>argsort\<close>: among equal entries the
  first puts the smaller index first, the second the larger.
\<close>

definition argsort_stable :: "real list \<Rightarrow> nat list" where
  "argsort_stable xs = sort_key (\<lambda>i. xs ! i) [0..<length xs]"


definition es_demo :: "nat es_collab" where
  "es_demo =
     \<lparr>format_guess = (\<lambda>s. s),
      wikipedia = (\<lambda>p. Inr (''wiki '' @ p)),
      parsed_item_map =
        [(''Napoleon'', [(''instance of'', [''Human''])]),
         (''Paris'', [(''instance of'', [''City''])])],
      pipeline_fit = (\<lambda>x y. Inr 0),
      transform_first = (\<lambda>clf q. Inr (q = ''emperor'')),
      multi_match = (\<lambda>q docs. map (\<lambda>d. (d, 1)) docs)\<rparr>"

definition es_docs_demo :: "Answer list" where
  "es_docs_demo =
     [\<lparr>page = ''Napoleon'', wiki_content = ''wiki Napoleon'', qb_content = ''french emperor'',
       is_human = True\<rparr>,
      \<lparr>page = ''Plato'', wiki_content = ''wiki Plato'', qb_content = ''greek philosopher'',
       is_human = True\<rparr>,
      \<lparr>page = ''Paris'', wiki_content = ''wiki Paris'', qb_content = ''french capital'',
       is_human = False\<rparr>]"

definition rnn_demo :: "nat rnn_collab" where
  "rnn_demo =
     \<lparr>tokenize_question = (\<lambda>q. [q]),
      preprocess_dataset = (\<lambda>td.
        Inr (Preprocessed (map (\<lambda>q. [concat q]) (fst td)) (PList [PInt 1]) PNone [] (PList []) PNone
               (PSet [PStr ''emperor''])
               (PDict [(PStr ''Plato'', PInt 0), (PStr ''Napoleon'', PInt 1)])
               (PDict [(PInt 0, PStr ''Plato''), (PInt 1, PStr ''Napoleon'')]))),
      load_embeddings = (\<lambda>v e m. Inr (PArray [[0], [1]], PDict [(PStr ''emperor'', PInt 1)])),
      convert_text_to_embeddings_indices = (\<lambda>q l. Inr (PList (map (\<lambda>t. PInt (int (length t))) q))),
      compute_n_classes = (\<lambda>a. Inr (PInt 2)),
      compute_max_len = (\<lambda>td. Inr (PInt 3)),
      tf_format = (\<lambda>x l z. Inr x),
      keras_compile = (\<lambda>ls. Inr 0),
      keras_fit = (\<lambda>net tr te b e p. Inr (Suc net)),
      predict_proba = (\<lambda>net x b. Inr (map (\<lambda>r. [3 / 10, 7 / 10]) x)),
      argsort = argsort_stable\<rparr>"


definition conf_demo :: guesser_conf where
  "conf_demo = \<lparr>conf_rnn_cell = PStr ''lstm'', conf_min_answers = PInt 1, conf_expand_we = PBool True\<rparr>"

definition plato_napoleon :: "nat RNNGuesser" where
  "plato_napoleon =
     (rnn_init conf_demo)
       \<lparr>embeddings := PArray [[0], [1]],
        embedding_lookup := PDict [(PStr ''emperor'', PInt 1)],
        max_len := PInt 3,
        i_to_class := PDict [(PInt 0, PStr ''Plato''), (PInt 1, PStr ''Napoleon'')],
        class_to_i := PDict [(PStr ''Plato'', PInt 0), (PStr ''Napoleon'', PInt 1)],
        vocab := PSet [PStr ''emperor''],
        n_classes := PInt 2,
        model := Some 1\<rparr>"

definition conf_gru :: guesser_conf where
  "conf_gru = \<lparr>conf_rnn_cell = PStr ''gru'', conf_min_answers = PInt 7, conf_expand_we = PBool False\<rparr>"

definition conf_unsupported :: guesser_conf where
  "conf_unsupported =
     \<lparr>conf_rnn_cell = PStr ''transformer'', conf_min_answers = PInt 1, conf_expand_we = PBool True\<rparr>"

definition training_demo :: "string list list \<times> string list" where
  "training_demo = ([[''french '', ''emperor'']], [''Napoleon''])"

definition world_demo :: "(nat, nat) world" where
  "world_demo = \<lparr>files = Map.empty, fit_calls = 0\<rparr>"

definition disk_demo :: "(nat, nat) disk" where
  "disk_demo =
     [''models/final_rnn.keras'' \<mapsto> KerasFile 1,
      ''models/rnn_params.pickle'' \<mapsto> ParamsPickle (dump_parameters plato_napoleon)]"

section \<open>Sequencing, loops and slices\<close>

lemma bind_result_Inl [simp]: "bind_result (Inl e) f = Inl e"
  by (simp add: bind_result_def)

lemma bind_result_Inr [simp]: "bind_result (Inr x) f = f x"
  by (simp add: bind_result_def)

lemma bind_result_eq_Inr:
  "bind_result r f = Inr y \<longleftrightarrow> (\<exists>x. r = Inr x \<and> f x = Inr y)"
  by (cases r) simp_all





lemma mapM_Inl:
  "mapM f xs = Inl e \<Longrightarrow> \<exists>x\<in>set xs. f x = Inl e"
  by (induction xs) (auto split: sum.splits)

lemma mapM_Inr_set: "mapM f xs = Inr ys \<Longrightarrow> x \<in> set xs \<Longrightarrow> \<exists>y. f x = Inr y"
  by (induction xs arbitrary: ys) (auto split: sum.splits)

lemma mapM_map: "\<forall>x\<in>set xs. f x = Inr (h x) \<Longrightarrow> mapM f xs = Inr (map h xs)"
  by (induction xs) simp_all

lemma mapM_pure: "mapM (\<lambda>x. Inr (h x)) xs = Inr (map h xs)"
  by (induction xs) simp_all

lemma py_slice_to_None [simp]: "py_slice_to None xs = xs"
  by (simp add: py_slice_to_def)






section \<open>The human map and training of the Elasticsearch guesser\<close>

lemma map_of_human_fold:
  "map_of (fold (\<lambda>p m. case map_of im p of
                          None \<Rightarrow> m
                        | Some types \<Rightarrow>
                            if ''Human'' \<in> types then AList.update p True m
                            else AList.update p False m) ks acc) p =
   (if p \<in> set ks \<and> map_of im p \<noteq> None
    then map_option (\<lambda>types. ''Human'' \<in> types) (map_of im p)
    else map_of acc p)"
  by (induction ks arbitrary: acc) (auto simp: update_conv' split: option.splits)

lemma map_of_create_is_human_map:
  "map_of (create_is_human_map im) p = map_option (\<lambda>types. ''Human'' \<in> types) (map_of im p)"
proof (cases "map_of im p")
  case None
  then show ?thesis by (simp add: create_is_human_map_def map_of_human_fold)
next
  case (Some types)
  then have "p \<in> set (map fst im)"
    by (metis map_of_eq_None_iff option.distinct(1) set_map)
  with Some show ?thesis by (simp add: create_is_human_map_def map_of_human_fold)
qed

lemma human_datum_Inl:
  "human_datum fg hm x = Inl e \<Longrightarrow> \<exists>p. e = KeyError (PStr p) \<and> map_of hm p = None"
  by (cases x) (auto simp: human_datum_def Let_def split: option.splits)

lemma human_datum_None:
  "map_of hm (fg (snd x)) = None \<Longrightarrow> human_datum fg hm x = Inl (KeyError (PStr (fg (snd x))))"
  by (cases x) (simp add: human_datum_def)

lemma human_datum_Some:
  "map_of hm (fg (snd x)) = Some h \<Longrightarrow>
   human_datum fg hm x = Inr (str_join '' '' (fst x), if h then 1 else 0)"
  by (cases x) (simp add: human_datum_def)

lemma format_human_data_KeyError:
  assumes "x \<in> set (zip questions pages)" "map_of hm (fg (snd x)) = None"
  shows "\<exists>p. format_human_data fg hm questions pages = Inl (KeyError (PStr p)) \<and> map_of hm p = None"
proof -
  have "mapM (human_datum fg hm) (zip questions pages) \<noteq> Inr ys" for ys
  proof
    assume "mapM (human_datum fg hm) (zip questions pages) = Inr ys"
    with assms(1) obtain y where "human_datum fg hm x = Inr y"
      by (auto dest: mapM_Inr_set)
    with human_datum_None[of hm fg x] assms(2) show False by simp
  qed
  then obtain e where e: "mapM (human_datum fg hm) (zip questions pages) = Inl e"
    by (cases "mapM (human_datum fg hm) (zip questions pages)") auto
  then obtain y where "human_datum fg hm y = Inl e"
    by (auto dest: mapM_Inl)
  then have "\<exists>p. e = KeyError (PStr p) \<and> map_of hm p = None"
    by (rule human_datum_Inl)
  with e show ?thesis by (auto simp: format_human_data_def)
qed

lemma format_human_data_Inr:
  assumes "\<forall>x\<in>set (zip questions pages). map_of hm (fg (snd x)) \<noteq> None"
  shows "format_human_data fg hm questions pages =
         Inr (map (\<lambda>x. str_join '' '' (fst x)) (zip questions pages),
              map (\<lambda>x. if the (map_of hm (fg (snd x))) then 1 else 0) (zip questions pages))"
proof -
  have "human_datum fg hm x =
          Inr (str_join '' '' (fst x), if the (map_of hm (fg (snd x))) then 1 else 0)"
    if "x \<in> set (zip questions pages)" for x
    using assms that human_datum_Some[of hm fg x] by fastforce
  then have "mapM (human_datum fg hm) (zip questions pages) =
          Inr (map (\<lambda>x. (str_join '' '' (fst x), if the (map_of hm (fg (snd x))) then 1 else 0))
             (zip questions pages))"
    by (simp add: mapM_map)
  then show ?thesis by (simp add: format_human_data_def comp_def)
qed

lemma es_train_KeyError:
  assumes "x \<in> set (zip (fst td) (snd td))"
    and "map_of (create_instance_of_map (format_guess ext) (parsed_item_map ext)
                  (format_guess ext ` set (snd td))) (format_guess ext (snd x)) = None"
  shows "\<exists>p. es_train ext td g idx = (Some (KeyError (PStr p)), g, idx)"
proof -
  let ?im = "create_instance_of_map (format_guess ext) (parsed_item_map ext)
                  (format_guess ext ` set (snd td))"
  have "map_of (create_is_human_map ?im) (format_guess ext (snd x)) = None"
    using assms(2) by (simp add: map_of_create_is_human_map)
  from format_human_data_KeyError[of x "fst td" "snd td" "create_is_human_map ?im" "format_guess ext",
      OF assms(1) this]
  show ?thesis by (auto simp: es_train_def Let_def)
qed

section \<open>Building the index\<close>

lemma build_loop_ok:
  assumes "\<forall>p\<in>set ps. (\<exists>c. cw p = Inr c) \<and> map_of documents p \<noteq> None \<and> map_of hm p \<noteq> None"
  shows "build_loop cw documents hm ps (Some ds) =
         (None, Some (ds @ map (\<lambda>p. \<lparr>page = p, wiki_content = projr (cw p),
                                      qb_content = the (map_of documents p),
                                      is_human = the (map_of hm p)\<rparr>) ps))"
  using assms
proof (induction ps arbitrary: ds)
  case Nil
  show ?case by simp
next
  case (Cons p ps)
  then obtain c t h where "cw p = Inr c" "map_of documents p = Some t" "map_of hm p = Some h"
    by auto
  with Cons show ?case by (simp add: answer_save_def)
qed

lemma build_ok:
  assumes "\<forall>p\<in>set (map fst documents). (\<exists>c. cw p = Inr c) \<and> map_of hm p \<noteq> None"
  shows "build cw documents hm idx =
         (None, Some (map (\<lambda>p. \<lparr>page = p, wiki_content = projr (cw p),
                                 qb_content = the (map_of documents p),
                                 is_human = the (map_of hm p)\<rparr>) (map fst documents)))"
proof -
  have keys: "\<forall>p\<in>set (map fst documents). map_of documents p \<noteq> None"
    by (metis map_of_eq_None_iff set_map)
  have "build cw documents hm idx = build_loop cw documents hm (map fst documents) (Some [])"
    by (cases idx) (simp_all add: build_def index_delete_def answer_init_def)
  also have "\<dots> = (None, Some ([] @ map (\<lambda>p. \<lparr>page = p, wiki_content = projr (cw p),
                                 qb_content = the (map_of documents p),
                                 is_human = the (map_of hm p)\<rparr>) (map fst documents)))"
    by (rule build_loop_ok) (use assms keys in auto)
  finally show ?thesis by simp
qed

section \<open>Guessing with the Elasticsearch guesser\<close>





text \<open>
  C2 (amended). For every page \<open>p\<close>, \<^verbatim>\<open>is_human_map\<close> has an entry for
  \<open>p\<close> exactly when the instance-of map has one, and the entry is
  \<^verbatim>\<open>'Human' in instance_of_map[p]\<close>. There is no default: a training answer
  whose page is absent from the instance-of map has no flag, and \<^verbatim>\<open>train\<close>
  ends with the \<^verbatim>\<open>KeyError\<close> of \<^verbatim>\<open>format_human_data\<close>, the guesser
  and the index untouched.
\<close>

theorem human_flag_rule:
  "map_of (create_is_human_map instance_of_map) p =
     map_option (\<lambda>types. ''Human'' \<in> types) (map_of instance_of_map p) \<and>
   (x \<in> set (zip (fst td) (snd td)) \<and>
    map_of (create_instance_of_map (format_guess ext) (parsed_item_map ext)
              (format_guess ext ` set (snd td))) (format_guess ext (snd x)) = None \<longrightarrow>
    (\<exists>missing. es_train ext td g idx = (Some (KeyError (PStr missing)), g, idx)))"
  using map_of_create_is_human_map es_train_KeyError by blast

text \<open>
  The rule at an instance-of map with a human, a city and no entry for Plato, and
  training on a set that has Plato as an answer.
\<close>

theorem human_flag_rule_witness:
  "map_of (create_is_human_map [(''Napoleon'', {''Human''}), (''Paris'', {''City''})]) ''Napoleon'' = Some True \<and>
   map_of (create_is_human_map [(''Napoleon'', {''Human''}), (''Paris'', {''City''})]) ''Paris'' = Some False \<and>
   map_of (create_is_human_map [(''Napoleon'', {''Human''}), (''Paris'', {''City''})]) ''Plato'' = None \<and>
   (\<exists>missing. es_train es_demo ([[''french'', ''emperor''], [''greek'', ''philosopher'']], [''Napoleon'', ''Plato''])
        \<lparr>is_human_model = None\<rparr> None =
      (Some (KeyError (PStr missing)), \<lparr>is_human_model = None\<rparr>, None))"
proof -
  let ?im = "[(''Napoleon'', {''Human''}), (''Paris'', {''City''})]"
  let ?td = "([[''french'', ''emperor''], [''greek'', ''philosopher'']], [''Napoleon'', ''Plato''])"
  have im: "create_instance_of_map (format_guess es_demo) (parsed_item_map es_demo)
              (format_guess es_demo ` set (snd ?td)) = [(''Napoleon'', {''Human''})]"
    by (simp add: create_instance_of_map_def instance_of_step_def es_demo_def)
  have h: "([''greek'', ''philosopher''], ''Plato'') \<in> set (zip (fst ?td) (snd ?td)) \<and>
     map_of (create_instance_of_map (format_guess es_demo) (parsed_item_map es_demo)
              (format_guess es_demo ` set (snd ?td)))
        (format_guess es_demo (snd ([''greek'', ''philosopher''], ''Plato''))) = None"
    unfolding im by (simp add: es_demo_def)
  have a: "map_of (create_is_human_map ?im) ''Napoleon'' = Some True"
    using human_flag_rule[of ?im "''Napoleon''", THEN conjunct1] by simp
  have b: "map_of (create_is_human_map ?im) ''Paris'' = Some False"
    using human_flag_rule[of ?im "''Paris''", THEN conjunct1] by simp
  have c: "map_of (create_is_human_map ?im) ''Plato'' = None"
    using human_flag_rule[of ?im "''Plato''", THEN conjunct1] by simp
  from human_flag_rule[THEN conjunct2, THEN mp, OF h]
  have d: "\<exists>missing. es_train es_demo ?td \<lparr>is_human_model = None\<rparr> None =
      (Some (KeyError (PStr missing)), \<lparr>is_human_model = None\<rparr>, None)"
    by blast
  from a b c d show ?thesis by blast
qed

text \<open>
  C2 as stated fails: with no knowledge-base entry for Plato, the flag of Plato is
  not \<^verbatim>\<open>False\<close> (there is none), and both \<^verbatim>\<open>format_human_data\<close> and
  \<^verbatim>\<open>train\<close> raise \<^verbatim>\<open>KeyError\<close>.
\<close>

theorem human_flag_default_counterexample:
  "map_of (create_is_human_map
            (create_instance_of_map (format_guess es_demo) (parsed_item_map es_demo) {''Plato''}))
     ''Plato'' \<noteq> Some False \<and>
   format_human_data (format_guess es_demo)
     (create_is_human_map
        (create_instance_of_map (format_guess es_demo) (parsed_item_map es_demo) {''Plato''}))
     [[''greek'', ''philosopher'']] [''Plato''] = Inl (KeyError (PStr ''Plato'')) \<and>
   fst (es_train es_demo ([[''greek'', ''philosopher'']], [''Plato'']) \<lparr>is_human_model = None\<rparr> None)
     = Some (KeyError (PStr ''Plato''))"
  by (simp add: create_instance_of_map_def instance_of_step_def es_demo_def create_is_human_map_def
      format_human_data_def human_datum_def es_train_def)

text \<open>
  C8. When every page of \<^verbatim>\<open>documents\<close> has reference content and a human
  flag, \<^verbatim>\<open>build\<close> returns normally whatever the index was before, absent
  (the \<^verbatim>\<open>NotFoundError\<close> of the delete is swallowed) or present (its
  documents are gone), and the index then holds exactly one document for each page
  of \<^verbatim>\<open>documents\<close>, in order: the page, its reference content, its
  aggregated question text and its human flag.
\<close>

theorem build_replaces_index:
  assumes "\<forall>p\<in>set (map fst documents). (\<exists>c. cw p = Inr c) \<and> map_of is_human_map p \<noteq> None"
  shows "build cw documents is_human_map idx =
         (None, Some (map (\<lambda>p. \<lparr>page = p, wiki_content = projr (cw p),
                                 qb_content = the (map_of documents p),
                                 is_human = the (map_of is_human_map p)\<rparr>) (map fst documents)))"
  using assms by (rule build_ok)

text \<open>
  Building from two pages, once with no index and once over an index of three
  documents.
\<close>

theorem build_replaces_index_witness:
  "build (wikipedia es_demo)
     [(''Napoleon'', ''french emperor''), (''Plato'', ''greek philosopher'')]
     [(''Napoleon'', True), (''Plato'', True)] None =
   (None, Some [\<lparr>page = ''Napoleon'', wiki_content = ''wiki Napoleon'',
                  qb_content = ''french emperor'', is_human = True\<rparr>,
                \<lparr>page = ''Plato'', wiki_content = ''wiki Plato'',
                  qb_content = ''greek philosopher'', is_human = True\<rparr>]) \<and>
   build (wikipedia es_demo)
     [(''Napoleon'', ''french emperor''), (''Plato'', ''greek philosopher'')]
     [(''Napoleon'', True), (''Plato'', True)] (Some es_docs_demo) =
   (None, Some [\<lparr>page = ''Napoleon'', wiki_content = ''wiki Napoleon'',
                  qb_content = ''french emperor'', is_human = True\<rparr>,
                \<lparr>page = ''Plato'', wiki_content = ''wiki Plato'',
                  qb_content = ''greek philosopher'', is_human = True\<rparr>])"
proof -
  let ?docs = "[(''Napoleon'', ''french emperor''), (''Plato'', ''greek philosopher'')]"
  let ?hm = "[(''Napoleon'', True), (''Plato'', True)]"
  have w: "wikipedia es_demo = (\<lambda>p. Inr (''wiki '' @ p))"
    by (simp add: es_demo_def)
  have h: "\<forall>p\<in>set (map fst ?docs). (\<exists>c. wikipedia es_demo p = Inr c) \<and> map_of ?hm p \<noteq> None"
    by (auto simp: w)
  have "build (wikipedia es_demo) ?docs ?hm idx =
     (None, Some [\<lparr>page = ''Napoleon'', wiki_content = ''wiki Napoleon'',
                  qb_content = ''french emperor'', is_human = True\<rparr>,
                \<lparr>page = ''Plato'', wiki_content = ''wiki Plato'',
                  qb_content = ''greek philosopher'', is_human = True\<rparr>])" for idx
    unfolding build_replaces_index[OF h] by (simp add: w)
  then show ?thesis by simp
qed

section \<open>Decoding a row of class probabilities\<close>

















section \<open>One list of guesses per question\<close>




subsection \<open>The instance, evaluated\<close>


lemma rnn_demo_simps:
  "tokenize_question rnn_demo = (\<lambda>q. [q])"
  "convert_text_to_embeddings_indices rnn_demo = (\<lambda>q l. Inr (PList (map (\<lambda>t. PInt (int (length t))) q)))"
  "tf_format rnn_demo = (\<lambda>x l z. Inr x)"
  "predict_proba rnn_demo = (\<lambda>net x b. Inr (map (\<lambda>r. [3 / 10, 7 / 10]) x))"
  "argsort rnn_demo = argsort_stable"
  by (simp_all add: rnn_demo_def)







section \<open>The guesses of the network guesser\<close>








section \<open>Guessing without a limit\<close>





section \<open>Guessing before training\<close>

lemma es_guess_untrained:
  "is_human_model g = None \<Longrightarrow>
   es_guess ext idx g questions k =
     (if questions = [] then Inr [] else Inl (AttributeError ''NoneType'' ''transform''))"
  by (cases questions) (simp_all add: es_guess_def ir_search_def)

lemma rnn_guess_untrained:
  assumes "model g = None"
  shows "\<exists>e. rnn_guess ext g questions k = Inl e \<and>
           (guess_x_test ext g questions = Inl e \<or>
            e = AttributeError ''NoneType'' ''predict_proba'' \<and> null_reference_style e)"
  using assms
  by (cases "guess_x_test ext g questions") (simp_all add: rnn_guess_def class_probabilities_def)

text \<open>
  C4 (amended). Neither guesser checks that it has been trained or loaded. The
  Elasticsearch guesser without a model returns the empty list for no questions,
  and otherwise fails with
  \<^verbatim>\<open>AttributeError: 'NoneType' object has no attribute 'transform'\<close>,
  raised at the first question. The network guesser without a model never returns
  guesses: either a helper raises on the unset parameters while the questions are
  encoded, or \<^verbatim>\<open>self.model.predict_proba\<close> fails with
  \<^verbatim>\<open>AttributeError: 'NoneType' object has no attribute 'predict_proba'\<close>.
  Both errors are null-reference-style.
\<close>

theorem guess_untrained_fails:
  "(is_human_model g = None \<longrightarrow>
      es_guess ext idx g questions k =
        (if questions = [] then Inr [] else Inl (AttributeError ''NoneType'' ''transform'')) \<and>
      null_reference_style (AttributeError ''NoneType'' ''transform'')) \<and>
   (model rg = None \<longrightarrow>
      (\<exists>e. rnn_guess rext rg questions k = Inl e \<and>
         (guess_x_test rext rg questions = Inl e \<or>
          e = AttributeError ''NoneType'' ''predict_proba'' \<and> null_reference_style e)))"
proof (intro conjI impI, goal_cases)
  case 1
  then show ?case by (rule es_guess_untrained)
next
  case 2
  show ?case by simp
next
  case 3
  then show ?case by (rule rnn_guess_untrained)
qed

text \<open>Both guessers as their constructors leave them, asked one question.\<close>

lemma guess_x_test_demo:
  "guess_x_test rnn_demo g qs = Inr (map (\<lambda>q. PList [PInt (int (length q))]) qs)"
proof -
  have "mapM (\<lambda>q. Inr (PList [PInt (int (length q))])) qs = Inr (map (\<lambda>q. PList [PInt (int (length q))]) qs)"
    by (rule mapM_pure)
  then show ?thesis by (simp add: guess_x_test_def rnn_demo_simps)
qed

theorem guess_untrained_fails_witness:
  "es_guess es_demo (Some es_docs_demo) \<lparr>is_human_model = None\<rparr> [''emperor''] (Some 1) =
     Inl (AttributeError ''NoneType'' ''transform'') \<and>
   null_reference_style (AttributeError ''NoneType'' ''transform'') \<and>
   rnn_guess rnn_demo (rnn_init conf_demo) [''emperor''] (Some 1) =
     Inl (AttributeError ''NoneType'' ''predict_proba'')"
proof -
  have e: "is_human_model \<lparr>is_human_model = (None :: nat option)\<rparr> = None" by simp
  have r: "model (rnn_init conf_demo :: nat RNNGuesser) = None" by (simp add: rnn_init_def)
  from guess_untrained_fails[THEN conjunct1, THEN mp, OF e,
      of es_demo "Some es_docs_demo" "[''emperor'']" "Some 1"]
  have a: "es_guess es_demo (Some es_docs_demo) \<lparr>is_human_model = None\<rparr> [''emperor''] (Some 1) =
     Inl (AttributeError ''NoneType'' ''transform'') \<and>
   null_reference_style (AttributeError ''NoneType'' ''transform'')"
    by simp
  from guess_untrained_fails[THEN conjunct2, THEN mp, OF r, of rnn_demo "[''emperor'']" "Some 1"]
  have "rnn_guess rnn_demo (rnn_init conf_demo) [''emperor''] (Some 1) =
     Inl (AttributeError ''NoneType'' ''predict_proba'')"
    by (auto simp: guess_x_test_demo)
  with a show ?thesis by simp
qed

text \<open>
  C4 as stated fails: the failure of an untrained guesser is the interpreter's
  complaint about \<^verbatim>\<open>None\<close>, and with no questions the Elasticsearch
  guesser does not fail at all.
\<close>

theorem guess_untrained_counterexample:
  "es_guess es_demo (Some es_docs_demo) \<lparr>is_human_model = None\<rparr> [''emperor''] (Some 1) =
     Inl (AttributeError ''NoneType'' ''transform'') \<and>
   null_reference_style (AttributeError ''NoneType'' ''transform'') \<and>
   es_guess es_demo (Some es_docs_demo) \<lparr>is_human_model = None\<rparr> [] (Some 1) = Inr [] \<and>
   rnn_guess rnn_demo (rnn_init conf_demo) [''emperor''] (Some 1) =
     Inl (AttributeError ''NoneType'' ''predict_proba'') \<and>
   null_reference_style (AttributeError ''NoneType'' ''predict_proba'')"
  by (simp add: es_guess_def ir_search_def rnn_guess_def class_probabilities_def
      guess_x_test_demo rnn_init_def)


section \<open>Loading the parameters\<close>

lemma param_Inr: "param params k = Inr v \<longleftrightarrow> map_of params k = Some v"
  by (simp add: param_def split: option.splits)

lemma load_parameters_Inr:
  assumes "load_parameters g params = Inr g'"
  shows "map_of params ''rnn_cell'' = Some (rnn_cell g') \<and>
         map_of params ''min_answers'' = Some (min_answers g') \<and>
         map_of params ''embeddings'' = Some (embeddings g') \<and>
         map_of params ''embedding_lookup'' = Some (embedding_lookup g') \<and>
         map_of params ''max_len'' = Some (max_len g') \<and>
         map_of params ''i_to_class'' = Some (i_to_class g') \<and>
         map_of params ''class_to_i'' = Some (class_to_i g') \<and>
         map_of params ''vocab'' = Some (vocab g') \<and>
         map_of params ''n_classes'' = Some (n_classes g') \<and>
         map_of params ''max_n_epochs'' = Some (max_n_epochs g') \<and>
         map_of params ''batch_size'' = Some (batch_size g') \<and>
         map_of params ''max_patience'' = Some (max_patience g') \<and>
         expand_we g' = expand_we g \<and> model g' = model g"
  using assms
  by (auto simp: load_parameters_def param_def split: option.split_asm)

lemma load_parameters_total:
  assumes "\<forall>k\<in>set (map fst (dump_parameters g0)). map_of params k \<noteq> None"
  shows "\<exists>g'. load_parameters g params = Inr g'"
proof -
  have "\<exists>v. param params k = Inr v" if "k \<in> set (map fst (dump_parameters g0))" for k
    using assms that by (auto simp: param_Inr)
  then have "\<exists>v. param params ''rnn_cell'' = Inr v" "\<exists>v. param params ''min_answers'' = Inr v"
    "\<exists>v. param params ''embeddings'' = Inr v" "\<exists>v. param params ''embedding_lookup'' = Inr v"
    "\<exists>v. param params ''max_len'' = Inr v" "\<exists>v. param params ''i_to_class'' = Inr v"
    "\<exists>v. param params ''class_to_i'' = Inr v" "\<exists>v. param params ''vocab'' = Inr v"
    "\<exists>v. param params ''n_classes'' = Inr v" "\<exists>v. param params ''max_n_epochs'' = Inr v"
    "\<exists>v. param params ''batch_size'' = Inr v" "\<exists>v. param params ''max_patience'' = Inr v"
    by (simp_all add: dump_parameters_def)
  then show ?thesis
    unfolding load_parameters_def by (elim exE) simp
qed

lemma rnn_load_Inr:
  assumes "rnn_load guesser_conf directory fs = Inr g"
  shows "\<exists>params net.
           fs (path_join directory RNN_PARAMS_TARGET) = Some (ParamsPickle params) \<and>
           fs (path_join directory RNN_MODEL_TARGET) = Some (KerasFile net) \<and>
           load_parameters ((rnn_init guesser_conf)\<lparr>model := Some net\<rparr>) params = Inr g"
proof -
  from assms obtain net params where
    m: "load_model (path_join directory RNN_MODEL_TARGET) fs = Inr net" and
    p: "load_params_pickle (path_join directory RNN_PARAMS_TARGET) fs = Inr params" and
    l: "load_parameters ((rnn_init guesser_conf)\<lparr>model := Some net\<rparr>) params = Inr g"
    unfolding rnn_load_def Let_def bind_result_eq_Inr by (elim exE conjE)
  from m have "fs (path_join directory RNN_MODEL_TARGET) = Some (KerasFile net)"
    by (auto simp: load_model_def split: option.splits blob.splits)
  moreover from p have "fs (path_join directory RNN_PARAMS_TARGET) = Some (ParamsPickle params)"
    by (auto simp: load_params_pickle_def split: option.splits blob.splits)
  ultimately show ?thesis using l by simp
qed

lemma rnn_load_fields:
  assumes "rnn_load guesser_conf directory fs = Inr g"
  shows "\<exists>params net.
         fs (path_join directory RNN_PARAMS_TARGET) = Some (ParamsPickle params) \<and>
         fs (path_join directory RNN_MODEL_TARGET) = Some (KerasFile net) \<and>
         map_of params ''rnn_cell'' = Some (rnn_cell g) \<and>
         map_of params ''min_answers'' = Some (min_answers g) \<and>
         map_of params ''embeddings'' = Some (embeddings g) \<and>
         map_of params ''embedding_lookup'' = Some (embedding_lookup g) \<and>
         map_of params ''max_len'' = Some (max_len g) \<and>
         map_of params ''i_to_class'' = Some (i_to_class g) \<and>
         map_of params ''class_to_i'' = Some (class_to_i g) \<and>
         map_of params ''vocab'' = Some (vocab g) \<and>
         map_of params ''n_classes'' = Some (n_classes g) \<and>
         map_of params ''max_n_epochs'' = Some (max_n_epochs g) \<and>
         map_of params ''batch_size'' = Some (batch_size g) \<and>
         map_of params ''max_patience'' = Some (max_patience g) \<and>
         expand_we g = conf_expand_we guesser_conf \<and> model g = Some net"
proof -
  from rnn_load_Inr[OF assms] obtain params net where
    f1: "fs (path_join directory RNN_PARAMS_TARGET) = Some (ParamsPickle params)" and
    f2: "fs (path_join directory RNN_MODEL_TARGET) = Some (KerasFile net)" and
    l: "load_parameters ((rnn_init guesser_conf)\<lparr>model := Some net\<rparr>) params = Inr g"
    by (elim exE conjE)
  note fields = load_parameters_Inr[OF l]
  have e: "expand_we g = conf_expand_we guesser_conf"
    using fields by (simp add: rnn_init_def)
  have m: "model g = Some net"
    using fields by simp
  show ?thesis
    apply (rule exI[of _ params], rule exI[of _ net])
    apply (insert f1 f2 fields e m)
    apply (elim conjE)
    apply (intro conjI; assumption)
    done
qed

lemma rnn_load_total:
  assumes "fs (path_join directory RNN_PARAMS_TARGET) = Some (ParamsPickle stored)"
    and "fs (path_join directory RNN_MODEL_TARGET) = Some (KerasFile stored_net)"
    and "\<forall>k\<in>set (map fst (dump_parameters g0)). map_of stored k \<noteq> None"
  shows "\<exists>g'. rnn_load guesser_conf directory fs = Inr g'"
proof -
  have lm: "load_model (path_join directory RNN_MODEL_TARGET) fs = Inr stored_net"
    by (simp add: load_model_def assms(2))
  have lp: "load_params_pickle (path_join directory RNN_PARAMS_TARGET) fs = Inr stored"
    by (simp add: load_params_pickle_def assms(1))
  from load_parameters_total[OF assms(3), of "(rnn_init guesser_conf)\<lparr>model := Some stored_net\<rparr>"]
  obtain g' where "load_parameters ((rnn_init guesser_conf)\<lparr>model := Some stored_net\<rparr>) stored = Inr g'"
    by (elim exE)
  then have "rnn_load guesser_conf directory fs = Inr g'"
    unfolding rnn_load_def Let_def lm lp bind_result_Inr .
  then show ?thesis by (rule exI)
qed

text \<open>
  C10. When \<^verbatim>\<open>RNNGuesser.load(directory)\<close> returns a guesser, the
  directory holds a parameter pickle and a model file, and each of the twelve
  parameter fields of the guesser (\<^verbatim>\<open>rnn_cell\<close>,
  \<^verbatim>\<open>min_answers\<close>, \<^verbatim>\<open>embeddings\<close>,
  \<^verbatim>\<open>embedding_lookup\<close>, \<^verbatim>\<open>max_len\<close>,
  \<^verbatim>\<open>i_to_class\<close>, \<^verbatim>\<open>class_to_i\<close>, \<^verbatim>\<open>vocab\<close>,
  \<^verbatim>\<open>n_classes\<close>, \<^verbatim>\<open>max_n_epochs\<close>,
  \<^verbatim>\<open>batch_size\<close>, \<^verbatim>\<open>max_patience\<close>) is the value stored
  under its name in the pickle, whatever \<^verbatim>\<open>__init__\<close> read from the
  configuration; only \<^verbatim>\<open>expand_we\<close> keeps the configured value, and the
  model is the one in the model file. \<^verbatim>\<open>load\<close> does return a guesser
  when both files are there and the pickle has the twelve keys.
\<close>

theorem load_overrides_configuration:
  "(rnn_load guesser_conf directory fs = Inr g \<longrightarrow>
      (\<exists>params net.
         fs (path_join directory RNN_PARAMS_TARGET) = Some (ParamsPickle params) \<and>
         fs (path_join directory RNN_MODEL_TARGET) = Some (KerasFile net) \<and>
         map_of params ''rnn_cell'' = Some (rnn_cell g) \<and>
         map_of params ''min_answers'' = Some (min_answers g) \<and>
         map_of params ''embeddings'' = Some (embeddings g) \<and>
         map_of params ''embedding_lookup'' = Some (embedding_lookup g) \<and>
         map_of params ''max_len'' = Some (max_len g) \<and>
         map_of params ''i_to_class'' = Some (i_to_class g) \<and>
         map_of params ''class_to_i'' = Some (class_to_i g) \<and>
         map_of params ''vocab'' = Some (vocab g) \<and>
         map_of params ''n_classes'' = Some (n_classes g) \<and>
         map_of params ''max_n_epochs'' = Some (max_n_epochs g) \<and>
         map_of params ''batch_size'' = Some (batch_size g) \<and>
         map_of params ''max_patience'' = Some (max_patience g) \<and>
         expand_we g = conf_expand_we guesser_conf \<and> model g = Some net)) \<and>
   (fs (path_join directory RNN_PARAMS_TARGET) = Some (ParamsPickle stored) \<and>
    fs (path_join directory RNN_MODEL_TARGET) = Some (KerasFile stored_net) \<and>
    (\<forall>k\<in>set (map fst (dump_parameters g0)). map_of stored k \<noteq> None) \<longrightarrow>
      (\<exists>g'. rnn_load guesser_conf directory fs = Inr g'))"
proof (intro conjI impI, goal_cases)
  case 1
  then show ?case by (rule rnn_load_fields)
next
  case 2
  then show ?case by (elim conjE) (rule rnn_load_total)
qed


text \<open>
  Loading the parameters of a guesser built with an LSTM cell under a configuration
  that asks for a GRU cell.
\<close>

lemma demo_paths:
  "path_join ''models'' RNN_MODEL_TARGET = ''models/final_rnn.keras''"
  "path_join ''models'' RNN_PARAMS_TARGET = ''models/rnn_params.pickle''"
  by (simp_all add: path_join_def RNN_MODEL_TARGET_def RNN_PARAMS_TARGET_def)

lemma plato_napoleon_dump:
  "dump_parameters plato_napoleon =
     [(''rnn_cell'', PStr ''lstm''),
      (''min_answers'', PInt 1),
      (''embeddings'', PArray [[0], [1]]),
      (''embedding_lookup'', PDict [(PStr ''emperor'', PInt 1)]),
      (''max_len'', PInt 3),
      (''i_to_class'', PDict [(PInt 0, PStr ''Plato''), (PInt 1, PStr ''Napoleon'')]),
      (''class_to_i'', PDict [(PStr ''Plato'', PInt 0), (PStr ''Napoleon'', PInt 1)]),
      (''vocab'', PSet [PStr ''emperor'']),
      (''n_classes'', PInt 2),
      (''max_n_epochs'', PInt 100),
      (''batch_size'', PInt 128),
      (''max_patience'', PInt 5)]"
  by (simp add: dump_parameters_def plato_napoleon_def rnn_init_def conf_demo_def)

theorem load_overrides_configuration_witness:
  "\<exists>g. rnn_load conf_gru ''models'' disk_demo = Inr g \<and>
       rnn_cell g = PStr ''lstm'' \<and> min_answers g = PInt 1 \<and> n_classes g = PInt 2 \<and>
       expand_we g = PBool False \<and> model g = Some 1"
proof -
  have h: "disk_demo (path_join ''models'' RNN_PARAMS_TARGET) =
             Some (ParamsPickle (dump_parameters plato_napoleon)) \<and>
           disk_demo (path_join ''models'' RNN_MODEL_TARGET) = Some (KerasFile 1) \<and>
           (\<forall>k\<in>set (map fst (dump_parameters plato_napoleon)).
              map_of (dump_parameters plato_napoleon) k \<noteq> None)"
    unfolding demo_paths plato_napoleon_dump by (simp add: disk_demo_def plato_napoleon_dump)
  from load_overrides_configuration[where guesser_conf = conf_gru, THEN conjunct2, THEN mp, OF h]
  obtain g where g: "rnn_load conf_gru ''models'' disk_demo = Inr g"
    by (elim exE)
  from load_overrides_configuration[THEN conjunct1, THEN mp, OF g]
  obtain params net where
    "disk_demo (path_join ''models'' RNN_PARAMS_TARGET) = Some (ParamsPickle params)"
    "disk_demo (path_join ''models'' RNN_MODEL_TARGET) = Some (KerasFile net)"
    "map_of params ''rnn_cell'' = Some (rnn_cell g)"
    "map_of params ''min_answers'' = Some (min_answers g)"
    "map_of params ''n_classes'' = Some (n_classes g)"
    "expand_we g = conf_expand_we conf_gru" "model g = Some net"
    by (elim exE conjE)
  then have "rnn_cell g = PStr ''lstm'' \<and> min_answers g = PInt 1 \<and> n_classes g = PInt 2 \<and>
       expand_we g = PBool False \<and> model g = Some 1"
    unfolding demo_paths by (auto simp: disk_demo_def plato_napoleon_dump conf_gru_def)
  with g show ?thesis by (intro exI[of _ g]) simp
qed

end
